theory Spec2Isabelle
  imports Main
begin

section \<open>Python exceptions\<close>

text \<open>
  The handlers of the program select exceptions by class (\<open>except FileNotFoundError\<close>,
  \<open>except ValueError\<close>, \<open>except ConnectionError\<close>, \<open>except Exception\<close>), so an
  exception value carries its class and the text that \<open>str(e)\<close> (and the \<open>{e}\<close> of an
  f-string) yields. The classes are the built-in ones the program names, with their
  built-in ancestry (\<open>FileNotFoundError\<close> and \<open>ConnectionError\<close> derive from \<open>OSError\<close>),
  and \<open>Subclass n b\<close> for any other class \<open>n\<close> declared with base \<open>b\<close>
  (\<open>RuntimeError\<close> is \<open>Subclass ''RuntimeError'' Exception\<close>,
  \<open>ConnectionRefusedError\<close> is \<open>Subclass ''ConnectionRefusedError'' ConnectionError\<close>).
  The type covers the instances of \<open>Exception\<close>, which is what the libraries called here
  raise; the interpreter's exit signals (\<open>KeyboardInterrupt\<close>, \<open>SystemExit\<close>), which derive
  from \<open>BaseException\<close> alone, are not values of it.
\<close>

datatype exc_class =
    Exception
  | OSError
  | FileNotFoundError
  | ConnectionError
  | ValueError
  | Subclass string exc_class

fun issubclass :: "exc_class \<Rightarrow> exc_class \<Rightarrow> bool" where
  "issubclass Exception d = (d = Exception)"
| "issubclass OSError d = (d = OSError \<or> d = Exception)"
| "issubclass FileNotFoundError d = (d = FileNotFoundError \<or> d = OSError \<or> d = Exception)"
| "issubclass ConnectionError d = (d = ConnectionError \<or> d = OSError \<or> d = Exception)"
| "issubclass ValueError d = (d = ValueError \<or> d = Exception)"
| "issubclass (Subclass n b) d = (d = Subclass n b \<or> issubclass b d)"

record exn =
  exn_class :: exc_class
  exn_str :: string

definition isinstance :: "exn \<Rightarrow> exc_class \<Rightarrow> bool" where
  "isinstance e c = issubclass (exn_class e) c"

definition raise_exn :: "exc_class \<Rightarrow> string \<Rightarrow> exn" where
  \<comment> \<open>\<open>C(text)\<close>: an exception of class \<open>C\<close> built from one string argument\<close>
  "raise_exn c s = \<lparr>exn_class = c, exn_str = s\<rparr>"

section \<open>vectors.py\<close>

subsection \<open>Data and collaborators\<close>

text \<open>A LangChain \<open>Document\<close>: page content and metadata. Chunks are documents too.\<close>

record document =
  page_content :: string
  metadata :: "(string \<times> string) list"

text \<open>The embedding object built in \<open>__init__\<close> from the three settings.\<close>

record bge_embeddings =
  bge_model_name :: string
  bge_model_kwargs :: "(string \<times> string) list"
  bge_encode_kwargs :: "(string \<times> bool) list"

record EmbeddingsManager =
  model_name :: string
  device :: string
  encode_kwargs :: "(string \<times> bool) list"
  qdrant_url :: string
  collection_name :: string
  embeddings :: bge_embeddings

text \<open>
  The external libraries are parameters of the model; each call returns a value or raises
  (\<open>Inl\<close>). The vector database has a state of its own, of type \<open>'db\<close>, that only
  \<open>Qdrant.from_documents\<close> receives; it returns the new state also when it raises, since a
  failed call may have written part of its data.
  \<^item> \<open>os_path_exists\<close>: \<open>os.path.exists\<close>;
  \<^item> \<open>HuggingFaceBgeEmbeddings\<close>: the constructor of the embedding model (\<open>Some e\<close>: it raises);
  \<^item> \<open>loader_load\<close>: \<open>UnstructuredPDFLoader(pdf_path).load()\<close>;
  \<^item> \<open>split_documents\<close>: \<open>RecursiveCharacterTextSplitter(chunk_size, chunk_overlap).split_documents\<close>;
  \<^item> \<open>Qdrant_from_documents\<close>: \<open>Qdrant.from_documents(splits, embedding, url, prefer_grpc, collection_name)\<close>.
\<close>

record 'db vectors_env =
  os_path_exists :: "string \<Rightarrow> bool"
  HuggingFaceBgeEmbeddings :: "bge_embeddings \<Rightarrow> exn option"
  loader_load :: "string \<Rightarrow> exn + document list"
  split_documents :: "nat \<Rightarrow> nat \<Rightarrow> document list \<Rightarrow> exn + document list"
  Qdrant_from_documents ::
    "document list \<Rightarrow> bge_embeddings \<Rightarrow> string \<Rightarrow> bool \<Rightarrow> string \<Rightarrow> 'db \<Rightarrow> (exn + unit) \<times> 'db"

text \<open>The calls \<open>create_embeddings\<close> makes to its collaborators, in the order made.\<close>

datatype call =
    PathExists string
  | Load string
  | Split "document list" nat nat
  | FromDocuments "document list" bge_embeddings string bool string

subsection \<open>\<open>EmbeddingsManager.__init__\<close>\<close>

definition EmbeddingsManager_init ::
  "('db, 'x) vectors_env_scheme \<Rightarrow> string \<Rightarrow> string \<Rightarrow> (string \<times> bool) list \<Rightarrow> string \<Rightarrow> string
    \<Rightarrow> exn + EmbeddingsManager" where
  "EmbeddingsManager_init env mn dev ek url coll =
     (let emb = \<lparr>bge_model_name = mn, bge_model_kwargs = [(''device'', dev)],
                 bge_encode_kwargs = ek\<rparr>
      in case HuggingFaceBgeEmbeddings env emb of
           Some e \<Rightarrow> Inl e
         | None \<Rightarrow>
             Inr \<lparr>model_name = mn, device = dev, encode_kwargs = ek, qdrant_url = url,
                  collection_name = coll, embeddings = emb\<rparr>)"

subsection \<open>\<open>EmbeddingsManager.create_embeddings\<close>\<close>

text \<open>
  The result is the list of collaborator calls made, the value returned or the exception
  raised, and the state of the vector database afterwards.
\<close>

definition create_embeddings ::
  "('db, 'x) vectors_env_scheme \<Rightarrow> EmbeddingsManager \<Rightarrow> string \<Rightarrow> 'db
    \<Rightarrow> call list \<times> (exn + string) \<times> 'db" where
  "create_embeddings env self pdf_path db =
     (if \<not> os_path_exists env pdf_path then
        ([PathExists pdf_path],
         Inl (raise_exn FileNotFoundError (''The file '' @ pdf_path @ '' does not exits.'')),
         db)
      else
        (case loader_load env pdf_path of
           Inl e \<Rightarrow> ([PathExists pdf_path, Load pdf_path], Inl e, db)
         | Inr docs \<Rightarrow>
             (if docs = [] then
                ([PathExists pdf_path, Load pdf_path],
                 Inl (raise_exn ValueError ''No documents were loaded''), db)
              else
                (case split_documents env 1000 250 docs of
                   Inl e \<Rightarrow>
                     ([PathExists pdf_path, Load pdf_path, Split docs 1000 250], Inl e, db)
                 | Inr splits \<Rightarrow>
                     (if splits = [] then
                        ([PathExists pdf_path, Load pdf_path, Split docs 1000 250],
                         Inl (raise_exn ValueError
                                ''No chunks were created from the documents''),
                         db)
                      else
                        (let calls =
                               [PathExists pdf_path, Load pdf_path, Split docs 1000 250,
                                FromDocuments splits (embeddings self) (qdrant_url self) False
                                  (collection_name self)]
                         in (case Qdrant_from_documents env splits (embeddings self)
                                    (qdrant_url self) False (collection_name self) db of
                               (Inl e, db') \<Rightarrow>
                                 (calls,
                                  Inl (raise_exn ConnectionError
                                         (''Failed to connect to Qdrant: '' @ exn_str e)),
                                  db')
                             | (Inr u, db') \<Rightarrow>
                                 (calls,
                                  Inr ''Vector DB Successfully Created and Stored in Qdrant!'',
                                  db'))))))))"

section \<open>app.py\<close>

subsection \<open>Session state, inputs and page output\<close>

text \<open>
  A transcript message is the dict \<open>{"role": ..., "content": ...}\<close>, kept as the list of
  its items; \<open>msg['role']\<close> is a lookup that raises \<open>KeyError\<close> on a missing key.
\<close>

type_synonym message = "(string \<times> string) list"

definition KeyError :: "string \<Rightarrow> exn" where
  "KeyError k =
     raise_exn (Subclass ''KeyError'' (Subclass ''LookupError'' Exception))
       ([CHR 0x27] @ k @ [CHR 0x27])"

definition getitem :: "message \<Rightarrow> string \<Rightarrow> exn + string" where
  "getitem m k = (case map_of m k of None \<Rightarrow> Inl (KeyError k) | Some v \<Rightarrow> Inr v)"

text \<open>
  \<open>st.session_state\<close> as Streamlit keeps it between two runs of the script: each of the
  three keys may be absent (\<open>None\<close>). Python's \<open>None\<close> as a value is the inner
  \<open>None\<close>.
\<close>

record 'm session_dict =
  d_temp_pdf_path :: "string option option"
  d_chatbot_manager :: "'m option option"
  d_messages :: "message list option"

definition empty_session_dict :: "'m session_dict" where
  "empty_session_dict =
     \<lparr>d_temp_pdf_path = None, d_chatbot_manager = None, d_messages = None\<rparr>"

text \<open>The session state once lines 22-29 have run: the three keys are present.\<close>

record 'm session =
  temp_pdf_path :: "string option"
  chatbot_manager :: "'m option"
  messages :: "message list"

definition init_session_state :: "'m session_dict \<Rightarrow> 'm session" where
  "init_session_state d =
     \<lparr>temp_pdf_path = (case d_temp_pdf_path d of None \<Rightarrow> None | Some v \<Rightarrow> v),
      chatbot_manager = (case d_chatbot_manager d of None \<Rightarrow> None | Some v \<Rightarrow> v),
      messages = (case d_messages d of None \<Rightarrow> [] | Some v \<Rightarrow> v)\<rparr>"

definition store :: "'m session \<Rightarrow> 'm session_dict" where
  \<comment> \<open>what the next run of the script finds\<close>
  "store s =
     \<lparr>d_temp_pdf_path = Some (temp_pdf_path s), d_chatbot_manager = Some (chatbot_manager s),
      d_messages = Some (messages s)\<rparr>"

text \<open>The widgets' values in one run of the script.\<close>

datatype choice = Home | Chatbot

record uploaded =
  file_name :: string
  file_size :: nat
  file_bytes :: string

record inputs =
  choice :: choice
  uploaded_file :: "uploaded option"
  create_embeddings_checkbox :: bool
  user_input :: "string option"

text \<open>
  What a run shows: the status boxes, the markdown whose text depends on data, and the chat
  bubbles. The fixed page furniture (page configuration, sidebar, titles, headers, rules,
  spinners) is left out, and the calls that draw are taken not to raise.
\<close>

datatype display =
    St_success string
  | St_warning string
  | St_error string
  | St_info string
  | St_markdown string
  | Chat_message string string

text \<open>The emoji of the texts, as their UTF-8 bytes.\<close>

definition emoji_warning :: string where
  "emoji_warning = [CHR 0xE2, CHR 0x9A, CHR 0xA0, CHR 0xEF, CHR 0xB8, CHR 0x8F]"

definition emoji_robot :: string where
  "emoji_robot = [CHR 0xF0, CHR 0x9F, CHR 0xA4, CHR 0x96]"

definition emoji_page :: string where
  "emoji_page = [CHR 0xF0, CHR 0x9F, CHR 0x93, CHR 0x84]"

fun str_nat :: "nat \<Rightarrow> string" where
  "str_nat n =
     (if n < 10 then [char_of (48 + n)] else str_nat (n div 10) @ [char_of (48 + n mod 10)])"

text \<open>
  The collaborators of app.py, beside those of vectors.py:
  \<^item> \<open>ChatBotManager\<close>: the constructor of the chat wrapper (chatbot.py);
  \<^item> \<open>get_response\<close>: its method, which returns the answer text or raises;
  \<^item> \<open>b64encode\<close>: \<open>base64.b64encode(...).decode('utf-8')\<close>;
  \<^item> \<open>write_file\<close>: opening a path for writing and writing the bytes (\<open>Some e\<close>: it raises).
\<close>

record chatbot_args =
  cb_model_name :: string
  cb_device :: string
  cb_encode_kwargs :: "(string \<times> bool) list"
  cb_llm_model :: string
  cb_llm_temperature :: string
  cb_qdrant_url :: string
  cb_collection_name :: string

record ('db, 'm) app_env = "'db vectors_env" +
  ChatBotManager :: "chatbot_args \<Rightarrow> exn + 'm"
  get_response :: "'m \<Rightarrow> string \<Rightarrow> exn + string"
  b64encode :: "string \<Rightarrow> string"
  write_file :: "string \<Rightarrow> string \<Rightarrow> exn option"

subsection \<open>Column 1: upload (lines 72-91)\<close>

definition displayPDF :: "('db, 'm) app_env \<Rightarrow> uploaded \<Rightarrow> display list" where
  "displayPDF env file =
     (let q = [CHR 0x22]
      in [St_markdown
            (''<iframe src='' @ q @ ''data:application/pdf;base64,''
             @ b64encode env (file_bytes file) @ q @ '' width='' @ q @ ''100%'' @ q
             @ '' height='' @ q @ ''600'' @ q @ '' type='' @ q @ ''application/pdf'' @ q
             @ ''></iframe>'')])"

text \<open>
  A block of the script returns the session, what it showed, and the exception that left it
  uncaught, if any (the run ends there; what was written to the session stays).
\<close>

definition upload_column ::
  "('db, 'm) app_env \<Rightarrow> uploaded option \<Rightarrow> 'm session \<Rightarrow> 'm session \<times> display list \<times> exn option"
  where
  "upload_column env up s =
     (case up of
        None \<Rightarrow> (s, [], None)
      | Some file \<Rightarrow>
          (let out = [St_success (emoji_page @ '' File Uploaded Successfully!''),
                      St_markdown (''File Name: '' @ file_name file),
                      St_markdown (''File Size: '' @ str_nat (file_size file) @ '' bytes'')]
                     @ displayPDF env file
           in (case write_file env ''temp.pdf'' (file_bytes file) of
                 Some e \<Rightarrow> (s, out, Some e)
               | None \<Rightarrow> (s\<lparr>temp_pdf_path := Some ''temp.pdf''\<rparr>, out, None))))"

subsection \<open>Column 2: embeddings (lines 94-135)\<close>

definition chatbot_settings :: chatbot_args where
  "chatbot_settings =
     \<lparr>cb_model_name = ''BAAI/bge-small-en'', cb_device = ''cpu'',
      cb_encode_kwargs = [(''normalize_embeddings'', True)], cb_llm_model = ''llama3.2:3b'',
      cb_llm_temperature = ''0.7'', cb_qdrant_url = ''http://localhost:6333'',
      cb_collection_name = ''vector_db''\<rparr>"

text \<open>The body of the \<open>try\<close> (lines 102-127), up to its end or to the exception raised in it.\<close>

definition embeddings_try ::
  "('db, 'm) app_env \<Rightarrow> string \<Rightarrow> 'm session \<Rightarrow> 'db
    \<Rightarrow> 'm session \<times> display list \<times> exn option \<times> 'db" where
  "embeddings_try env path s db =
     (case EmbeddingsManager_init env ''BAAI/bge-small-en'' ''cpu''
             [(''normalize_embeddings'', True)] ''http://localhost:6333'' ''vector_db'' of
        Inl e \<Rightarrow> (s, [], Some e, db)
      | Inr embeddings_manager \<Rightarrow>
          (case create_embeddings env embeddings_manager path db of
             (calls, Inl e, db') \<Rightarrow> (s, [], Some e, db')
           | (calls, Inr result, db') \<Rightarrow>
               (case chatbot_manager s of
                  Some m \<Rightarrow> (s, [St_success result], None, db')
                | None \<Rightarrow>
                    (case ChatBotManager env chatbot_settings of
                       Inl e \<Rightarrow> (s, [St_success result], Some e, db')
                     | Inr m \<Rightarrow>
                         (s\<lparr>chatbot_manager := Some m\<rparr>, [St_success result], None, db')))))"

text \<open>The four \<open>except\<close> clauses (lines 128-135), tried in order.\<close>

definition embeddings_except :: "exn \<Rightarrow> display list \<times> exn option" where
  "embeddings_except e =
     (if isinstance e FileNotFoundError then ([St_error (exn_str e)], None)
      else if isinstance e ValueError then ([St_error (exn_str e)], None)
      else if isinstance e ConnectionError then ([St_error (exn_str e)], None)
      else if isinstance e Exception then
        ([St_error (''An unexpected error occurred: '' @ exn_str e)], None)
      else ([], Some e))"

definition embeddings_column ::
  "('db, 'm) app_env \<Rightarrow> bool \<Rightarrow> 'm session \<Rightarrow> 'db
    \<Rightarrow> 'm session \<times> display list \<times> exn option \<times> 'db" where
  "embeddings_column env checked s db =
     (if checked then
        (case temp_pdf_path s of
           None \<Rightarrow> (s, [St_warning (emoji_warning @ '' Please upload a PDF first.'')], None, db)
         | Some path \<Rightarrow>
             (case embeddings_try env path s db of
                (s', out, None, db') \<Rightarrow> (s', out, None, db')
              | (s', out, Some e, db') \<Rightarrow>
                  (case embeddings_except e of (shown, r) \<Rightarrow> (s', out @ shown, r, db'))))
      else (s, [], None, db))"

subsection \<open>Column 3: chat (lines 137-172)\<close>

text \<open>The loop over the transcript (lines 148-152): a bubble for each message, by its role.\<close>

fun display_messages :: "message list \<Rightarrow> display list \<times> exn option" where
  "display_messages [] = ([], None)"
| "display_messages (m # ms) =
     (case getitem m ''role'' of
        Inl e \<Rightarrow> ([], Some e)
      | Inr r \<Rightarrow>
          (if r = ''user'' then
             (case getitem m ''content'' of
                Inl e \<Rightarrow> ([], Some e)
              | Inr c \<Rightarrow>
                  (case display_messages ms of
                     (out, err) \<Rightarrow> (Chat_message ''user'' c # out, err)))
           else if r = ''assistant'' then
             (case getitem m ''content'' of
                Inl e \<Rightarrow> ([], Some e)
              | Inr c \<Rightarrow>
                  (case display_messages ms of
                     (out, err) \<Rightarrow> (Chat_message ''assistant'' c # out, err)))
           else display_messages ms))"

definition append_message :: "'m session \<Rightarrow> string \<Rightarrow> string \<Rightarrow> 'm session" where
  \<comment> \<open>\<open>st.session_state['messages'].append({"role": role, "content": content})\<close>\<close>
  "append_message s role content =
     s\<lparr>messages := messages s @ [[(''role'', role), (''content'', content)]]\<rparr>"

text \<open>
  Lines 163-168: the answer of the chatbot, or the error text when \<open>get_response\<close> raises
  an instance of \<open>Exception\<close>.
\<close>

definition chat_answer :: "('db, 'm) app_env \<Rightarrow> 'm \<Rightarrow> string \<Rightarrow> exn + string" where
  "chat_answer env mgr u =
     (case get_response env mgr u of
        Inr answer \<Rightarrow> Inr answer
      | Inl e \<Rightarrow>
          (if isinstance e Exception then
             Inr (emoji_warning @ '' An error occurred while processing your request: ''
                  @ exn_str e)
           else Inl e))"

text \<open>Lines 157-172. \<open>if user_input:\<close> holds for a string that is not empty.\<close>

definition chat_input_handler ::
  "('db, 'm) app_env \<Rightarrow> 'm \<Rightarrow> 'm session \<Rightarrow> string option
    \<Rightarrow> 'm session \<times> display list \<times> exn option" where
  "chat_input_handler env mgr s inp =
     (case inp of
        None \<Rightarrow> (s, [], None)
      | Some u \<Rightarrow>
          (if u = [] then (s, [], None)
           else
             (let s1 = append_message s ''user'' u
              in (case chat_answer env mgr u of
                    Inl e \<Rightarrow> (s1, [Chat_message ''user'' u], Some e)
                  | Inr answer \<Rightarrow>
                      (append_message s1 ''assistant'' answer,
                       [Chat_message ''user'' u, Chat_message ''assistant'' answer], None)))))"

definition chat_column ::
  "('db, 'm) app_env \<Rightarrow> 'm session \<Rightarrow> string option
    \<Rightarrow> 'm session \<times> display list \<times> exn option" where
  "chat_column env s inp =
     (case chatbot_manager s of
        None \<Rightarrow>
          (s, [St_info (emoji_robot
                 @ '' Please upload a PDF and create embeddings to start chatting!'')], None)
      | Some mgr \<Rightarrow>
          (case display_messages (messages s) of
             (shown, Some e) \<Rightarrow> (s, shown, Some e)
           | (shown, None) \<Rightarrow>
               (case chat_input_handler env mgr s inp of
                  (s', out, r) \<Rightarrow> (s', shown @ out, r))))"

subsection \<open>One run of the script, and a session of runs\<close>

definition script_run ::
  "('db, 'm) app_env \<Rightarrow> inputs \<Rightarrow> 'm session_dict \<Rightarrow> 'db
    \<Rightarrow> 'm session \<times> display list \<times> exn option \<times> 'db" where
  "script_run env inp d db =
     (let s = init_session_state d
      in (case choice inp of
            Home \<Rightarrow> (s, [], None, db)
          | Chatbot \<Rightarrow>
              (case upload_column env (uploaded_file inp) s of
                 (s1, out1, Some e) \<Rightarrow> (s1, out1, Some e, db)
               | (s1, out1, None) \<Rightarrow>
                   (case embeddings_column env (create_embeddings_checkbox inp) s1 db of
                      (s2, out2, Some e, db2) \<Rightarrow> (s2, out1 @ out2, Some e, db2)
                    | (s2, out2, None, db2) \<Rightarrow>
                        (case chat_column env s2 (user_input inp) of
                           (s3, out3, r) \<Rightarrow> (s3, out1 @ out2 @ out3, r, db2))))))"

text \<open>
  A browser session: the script runs once per interaction, each run with its own widget
  values and its own behaviour of the collaborators, on the session state the run before
  left.
\<close>

fun run_scripts ::
  "(('db, 'm) app_env \<times> inputs) list \<Rightarrow> 'm session_dict \<Rightarrow> 'db \<Rightarrow> 'm session_dict \<times> 'db" where
  "run_scripts [] d db = (d, db)"
| "run_scripts ((env, inp) # rs) d db =
     (case script_run env inp d db of (s, out, r, db') \<Rightarrow> run_scripts rs (store s) db')"

text \<open>The invariant of the transcript: a role of the two, and a content.\<close>

definition message_ok :: "message \<Rightarrow> bool" where
  "message_ok m =
     ((map_of m ''role'' = Some ''user'' \<or> map_of m ''role'' = Some ''assistant'')
      \<and> map_of m ''content'' \<noteq> None)"

definition transcript_ok :: "message list \<Rightarrow> bool" where
  "transcript_ok ms = list_all message_ok ms"

definition transcript :: "'m session_dict \<Rightarrow> message list" where
  \<comment> \<open>the transcript a stored session holds; none before the first run\<close>
  "transcript d = (case d_messages d of None \<Rightarrow> [] | Some ms \<Rightarrow> ms)"

subsection \<open>Classifying calls\<close>

fun is_vector_db_call :: "call \<Rightarrow> bool" where
  "is_vector_db_call (FromDocuments splits emb url grpc coll) = True"
| "is_vector_db_call (PathExists p) = False"
| "is_vector_db_call (Load p) = False"
| "is_vector_db_call (Split docs n k) = False"

subsection \<open>Concrete collaborators for the worked instances\<close>

text \<open>
  An environment fixed by what each collaborator answers: whether the path exists, what
  the loader, the splitter and the vector database return or raise, and what the chatbot
  answers. Its vector database counts the calls it receives.
\<close>

definition sample_env ::
  "bool \<Rightarrow> exn + document list \<Rightarrow> exn + document list \<Rightarrow> exn + unit \<Rightarrow> exn + string
    \<Rightarrow> (nat, string) app_env" where
  "sample_env ex ld sp vdb resp =
     \<lparr>os_path_exists = (\<lambda>p. ex),
      HuggingFaceBgeEmbeddings = (\<lambda>emb. None),
      loader_load = (\<lambda>p. ld),
      split_documents = (\<lambda>n k docs. sp),
      Qdrant_from_documents = (\<lambda>splits emb url grpc coll db. (vdb, Suc db)),
      ChatBotManager = (\<lambda>args. Inr ''bot''),
      get_response = (\<lambda>m u. resp),
      b64encode = (\<lambda>b. b),
      write_file = (\<lambda>p b. None)\<rparr>"

definition sample_doc :: document where
  "sample_doc = \<lparr>page_content = ''hello'', metadata = [(''source'', ''temp.pdf'')]\<rparr>"

definition sample_manager :: EmbeddingsManager where
  "sample_manager =
     \<lparr>model_name = ''BAAI/bge-small-en'', device = ''cpu'',
      encode_kwargs = [(''normalize_embeddings'', True)],
      qdrant_url = ''http://localhost:6333'', collection_name = ''vector_db'',
      embeddings = \<lparr>bge_model_name = ''BAAI/bge-small-en'',
                     bge_model_kwargs = [(''device'', ''cpu'')],
                     bge_encode_kwargs = [(''normalize_embeddings'', True)]\<rparr>\<rparr>"

definition sample_session :: "string session" where
  "sample_session =
     \<lparr>temp_pdf_path = Some ''temp.pdf'', chatbot_manager = Some ''bot'',
      messages = [[(''role'', ''user''), (''content'', ''hi'')],
                  [(''role'', ''assistant''), (''content'', ''hello'')]]\<rparr>"

definition timeout_error :: exn where
  "timeout_error = raise_exn (Subclass ''TimeoutError'' OSError) ''timed out''"

definition sample_inputs :: "string option \<Rightarrow> inputs" where
  "sample_inputs inp =
     \<lparr>choice = Chatbot,
      uploaded_file = Some \<lparr>file_name = ''a.pdf'', file_size = 4, file_bytes = ''%PDF''\<rparr>,
      create_embeddings_checkbox = True, user_input = inp\<rparr>"

definition sample_runs :: "((nat, string) app_env \<times> inputs) list" where
  "sample_runs =
     [(sample_env True (Inr [sample_doc]) (Inr [sample_doc]) (Inr ()) (Inr ''because''),
       sample_inputs None),
      (sample_env True (Inr [sample_doc]) (Inr [sample_doc]) (Inr ()) (Inl timeout_error),
       sample_inputs (Some ''why''))]"

section \<open>Properties of \<open>create_embeddings\<close>\<close>

subsection \<open>Every class derives from \<open>Exception\<close>\<close>

lemma issubclass_Exception: "issubclass c Exception"
  by (induction c) simp_all

lemma isinstance_Exception: "isinstance e Exception"
  by (simp add: isinstance_def issubclass_Exception)

subsection \<open>Where an exception of \<open>create_embeddings\<close> comes from\<close>

lemma create_embeddings_error_cases:
  assumes "create_embeddings env self p db = (calls, Inl e, db')"
  obtains
    (missing) "e = raise_exn FileNotFoundError (''The file '' @ p @ '' does not exits.'')"
  | (no_docs) "e = raise_exn ValueError ''No documents were loaded''"
  | (no_chunks) "e = raise_exn ValueError ''No chunks were created from the documents''"
  | (vector_db) e0 :: exn where
      "e = raise_exn ConnectionError (''Failed to connect to Qdrant: '' @ exn_str e0)"
  | (loader) "loader_load env p = Inl e"
  | (splitter) docs where
      "loader_load env p = Inr docs" and "split_documents env 1000 250 docs = Inl e"
proof (cases "os_path_exists env p")
  case False
  with assms have "e = raise_exn FileNotFoundError (''The file '' @ p @ '' does not exits.'')"
    by (simp add: create_embeddings_def)
  then show ?thesis by (rule missing)
next
  case ex: True
  show ?thesis
  proof (cases "loader_load env p")
    case (Inl e1)
    with assms ex have "e = e1" by (simp add: create_embeddings_def)
    with Inl have "loader_load env p = Inl e" by simp
    then show ?thesis by (rule loader)
  next
    case ld: (Inr docs)
    show ?thesis
    proof (cases "docs = []")
      case True
      with assms ex ld have "e = raise_exn ValueError ''No documents were loaded''"
        by (simp add: create_embeddings_def)
      then show ?thesis by (rule no_docs)
    next
      case ne: False
      show ?thesis
      proof (cases "split_documents env 1000 250 docs")
        case (Inl e2)
        with assms ex ld ne have "e = e2" by (simp add: create_embeddings_def)
        with Inl have "split_documents env 1000 250 docs = Inl e" by simp
        with ld show ?thesis by (rule splitter)
      next
        case sp: (Inr splits)
        show ?thesis
        proof (cases "splits = []")
          case True
          with assms ex ld ne sp
          have "e = raise_exn ValueError ''No chunks were created from the documents''"
            by (simp add: create_embeddings_def)
          then show ?thesis by (rule no_chunks)
        next
          case ns: False
          obtain res db2 where q:
            "Qdrant_from_documents env splits (embeddings self) (qdrant_url self) False
               (collection_name self) db = (res, db2)"
            by (cases "Qdrant_from_documents env splits (embeddings self) (qdrant_url self)
                         False (collection_name self) db")
          show ?thesis
          proof (cases res)
            case (Inl e0)
            with assms ex ld ne sp ns q
            have "e = raise_exn ConnectionError (''Failed to connect to Qdrant: '' @ exn_str e0)"
              by (simp add: create_embeddings_def)
            then show ?thesis by (rule vector_db)
          next
            case (Inr u)
            with assms ex ld ne sp ns q have False by (simp add: create_embeddings_def)
            then show ?thesis ..
          qed
        qed
      qed
    qed
  qed
qed

subsection \<open>The missing file\<close>

text \<open>
  C2. For a path that \<open>os.path.exists\<close> denies, \<open>create_embeddings\<close> raises
  \<open>FileNotFoundError\<close> with a text that names the path. The only call it has made is the
  existence test: nothing was loaded, split or sent to the vector database, whose state is
  the one it started from.
\<close>

theorem create_embeddings_missing_file:
  assumes "\<not> os_path_exists env p"
  shows "create_embeddings env self p db =
           ([PathExists p],
            Inl (raise_exn FileNotFoundError (''The file '' @ p @ '' does not exits.'')),
            db)"
  using assms by (simp add: create_embeddings_def)

theorem create_embeddings_missing_file_witness:
  "\<not> os_path_exists (sample_env False (Inr [sample_doc]) (Inr [sample_doc]) (Inr ()) (Inr ''ok''))
       ''gone.pdf''
   \<and> create_embeddings (sample_env False (Inr [sample_doc]) (Inr [sample_doc]) (Inr ()) (Inr ''ok''))
       sample_manager ''gone.pdf'' 0 =
     ([PathExists ''gone.pdf''],
      Inl \<lparr>exn_class = FileNotFoundError, exn_str = ''The file gone.pdf does not exits.''\<rparr>,
      0)"
  using create_embeddings_missing_file
    [of "sample_env False (Inr [sample_doc]) (Inr [sample_doc]) (Inr ()) (Inr ''ok'')"
        "''gone.pdf''" sample_manager 0]
  by (simp add: sample_env_def raise_exn_def)

subsection \<open>The empty document\<close>

text \<open>
  C3. The path exists and the loader returns its documents \<open>docs\<close>. When there are none,
  or when the splitter returns no chunk for them, \<open>create_embeddings\<close> raises
  \<open>ValueError\<close> (with the text of the case), and the calls it has made hold no call to the
  vector database, whose state is unchanged.
\<close>

theorem create_embeddings_empty_content:
  assumes "os_path_exists env p" and "loader_load env p = Inr docs"
    and "docs = [] \<or> split_documents env 1000 250 docs = Inr []"
  shows "create_embeddings env self p db =
           (if docs = [] then
              ([PathExists p, Load p], Inl (raise_exn ValueError ''No documents were loaded''), db)
            else
              ([PathExists p, Load p, Split docs 1000 250],
               Inl (raise_exn ValueError ''No chunks were created from the documents''), db))
         \<and> filter is_vector_db_call (fst (create_embeddings env self p db)) = []"
  using assms by (auto simp add: create_embeddings_def)

theorem create_embeddings_empty_content_witness:
  "create_embeddings (sample_env True (Inr []) (Inr [sample_doc]) (Inr ()) (Inr ''ok''))
       sample_manager ''temp.pdf'' 0 =
     ([PathExists ''temp.pdf'', Load ''temp.pdf''],
      Inl \<lparr>exn_class = ValueError, exn_str = ''No documents were loaded''\<rparr>, 0)
   \<and> create_embeddings (sample_env True (Inr [sample_doc]) (Inr []) (Inr ()) (Inr ''ok''))
       sample_manager ''temp.pdf'' 0 =
     ([PathExists ''temp.pdf'', Load ''temp.pdf'', Split [sample_doc] 1000 250],
      Inl \<lparr>exn_class = ValueError, exn_str = ''No chunks were created from the documents''\<rparr>,
      0)"
  using create_embeddings_empty_content
    [of "sample_env True (Inr []) (Inr [sample_doc]) (Inr ()) (Inr ''ok'')" "''temp.pdf''" "[]"
        sample_manager 0]
    create_embeddings_empty_content
    [of "sample_env True (Inr [sample_doc]) (Inr []) (Inr ()) (Inr ''ok'')" "''temp.pdf''"
        "[sample_doc]" sample_manager 0]
  by (simp add: sample_env_def raise_exn_def)

subsection \<open>The order of the delegation\<close>

text \<open>
  C6. Whenever \<open>create_embeddings\<close> returns, the calls it made are, in this order, the
  existence test, the loader on the path, the splitter on the documents the loader
  returned, and the vector database on the chunks the splitter returned; the value
  returned is the success message.
\<close>

theorem create_embeddings_delegation_order:
  assumes "create_embeddings env self p db = (calls, Inr r, db')"
  shows "\<exists>docs splits.
           loader_load env p = Inr docs \<and> split_documents env 1000 250 docs = Inr splits
           \<and> Qdrant_from_documents env splits (embeddings self) (qdrant_url self) False
                (collection_name self) db = (Inr (), db')
           \<and> calls = [PathExists p, Load p, Split docs 1000 250,
                FromDocuments splits (embeddings self) (qdrant_url self) False
                  (collection_name self)]
           \<and> r = ''Vector DB Successfully Created and Stored in Qdrant!''"
  using assms
  by (auto simp add: create_embeddings_def Let_def split: if_splits sum.splits prod.splits)

theorem create_embeddings_delegation_order_witness:
  "create_embeddings (sample_env True (Inr [sample_doc]) (Inr [sample_doc, sample_doc]) (Inr ()) (Inr ''ok''))
       sample_manager ''temp.pdf'' 0 =
     ([PathExists ''temp.pdf'', Load ''temp.pdf'', Split [sample_doc] 1000 250,
       FromDocuments [sample_doc, sample_doc] (embeddings sample_manager)
         ''http://localhost:6333'' False ''vector_db''],
      Inr ''Vector DB Successfully Created and Stored in Qdrant!'', 1)
   \<and> (\<exists>docs splits.
         loader_load (sample_env True (Inr [sample_doc]) (Inr [sample_doc, sample_doc]) (Inr ()) (Inr ''ok''))
           ''temp.pdf'' = Inr docs
         \<and> [PathExists ''temp.pdf'', Load ''temp.pdf'', Split [sample_doc] 1000 250,
             FromDocuments [sample_doc, sample_doc] (embeddings sample_manager)
               ''http://localhost:6333'' False ''vector_db'']
           = [PathExists ''temp.pdf'', Load ''temp.pdf'', Split docs 1000 250,
              FromDocuments splits (embeddings sample_manager) (qdrant_url sample_manager) False
                (collection_name sample_manager)])"
proof -
  let ?env = "sample_env True (Inr [sample_doc]) (Inr [sample_doc, sample_doc]) (Inr ()) (Inr ''ok'')"
  let ?calls = "[PathExists ''temp.pdf'', Load ''temp.pdf'', Split [sample_doc] 1000 250,
       FromDocuments [sample_doc, sample_doc] (embeddings sample_manager)
         ''http://localhost:6333'' False ''vector_db'']"
  have run: "create_embeddings ?env sample_manager ''temp.pdf'' 0 =
      (?calls, Inr ''Vector DB Successfully Created and Stored in Qdrant!'', 1)"
    by (simp add: create_embeddings_def sample_env_def sample_manager_def sample_doc_def)
  from create_embeddings_delegation_order [OF run] run show ?thesis
    by blast
qed

subsection \<open>A failure of the vector database\<close>

text \<open>
  C8. When the vector-database step is reached and \<open>Qdrant.from_documents\<close> raises an
  exception \<open>e\<close>, of any class, the exception that leaves \<open>create_embeddings\<close> is a new
  one of class \<open>ConnectionError\<close> whose text holds the text of \<open>e\<close>; it is never
  \<open>e\<close> itself.
\<close>

theorem vector_store_exception_wrapped:
  assumes "os_path_exists env p" and "loader_load env p = Inr docs" and "docs \<noteq> []"
    and "split_documents env 1000 250 docs = Inr splits" and "splits \<noteq> []"
    and "Qdrant_from_documents env splits (embeddings self) (qdrant_url self) False
           (collection_name self) db = (Inl e, db')"
  shows "fst (snd (create_embeddings env self p db)) =
           Inl (raise_exn ConnectionError (''Failed to connect to Qdrant: '' @ exn_str e))
         \<and> raise_exn ConnectionError (''Failed to connect to Qdrant: '' @ exn_str e) \<noteq> e"
proof -
  have "exn_str (raise_exn ConnectionError (''Failed to connect to Qdrant: '' @ exn_str e))
          \<noteq> exn_str e"
    by (simp add: raise_exn_def)
  then have "raise_exn ConnectionError (''Failed to connect to Qdrant: '' @ exn_str e) \<noteq> e"
    by auto
  with assms show ?thesis
    by (simp add: create_embeddings_def)
qed

theorem vector_store_exception_wrapped_witness:
  "fst (snd (create_embeddings
       (sample_env True (Inr [sample_doc]) (Inr [sample_doc])
          (Inl (raise_exn (Subclass ''UnexpectedResponse'' Exception) ''404 (Not Found)''))
          (Inr ''ok''))
       sample_manager ''temp.pdf'' 0)) =
     Inl \<lparr>exn_class = ConnectionError,
          exn_str = ''Failed to connect to Qdrant: 404 (Not Found)''\<rparr>"
  using vector_store_exception_wrapped
    [of "sample_env True (Inr [sample_doc]) (Inr [sample_doc])
          (Inl (raise_exn (Subclass ''UnexpectedResponse'' Exception) ''404 (Not Found)''))
          (Inr ''ok'')"
        "''temp.pdf''" "[sample_doc]" "[sample_doc]" sample_manager 0
        "raise_exn (Subclass ''UnexpectedResponse'' Exception) ''404 (Not Found)''" 1]
  by (simp add: sample_env_def raise_exn_def)

subsection \<open>No call to the vector database before the early errors\<close>

text \<open>
  C10. When the exception that leaves \<open>create_embeddings\<close> is an instance of
  \<open>FileNotFoundError\<close> or of \<open>ValueError\<close>, no call to the vector database is among
  the calls made, and the state of the vector database is the one before the call.
\<close>

theorem no_vector_db_call_on_early_error:
  assumes "create_embeddings env self p db = (calls, Inl e, db')"
    and "isinstance e FileNotFoundError \<or> isinstance e ValueError"
  shows "filter is_vector_db_call calls = [] \<and> db' = db"
  using assms
  by (auto simp add: create_embeddings_def Let_def isinstance_def raise_exn_def
      split: if_splits sum.splits prod.splits)

theorem no_vector_db_call_on_early_error_witness:
  "create_embeddings (sample_env False (Inr [sample_doc]) (Inr [sample_doc]) (Inr ()) (Inr ''ok''))
       sample_manager ''gone.pdf'' 7 =
     ([PathExists ''gone.pdf''],
      Inl (raise_exn FileNotFoundError ''The file gone.pdf does not exits.''), 7)
   \<and> isinstance (raise_exn FileNotFoundError ''The file gone.pdf does not exits.'')
        FileNotFoundError
   \<and> filter is_vector_db_call [PathExists ''gone.pdf''] = [] \<and> (7::nat) = 7"
proof -
  have run: "create_embeddings
       (sample_env False (Inr [sample_doc]) (Inr [sample_doc]) (Inr ()) (Inr ''ok''))
       sample_manager ''gone.pdf'' 7 =
     ([PathExists ''gone.pdf''],
      Inl (raise_exn FileNotFoundError ''The file gone.pdf does not exits.''), 7)"
    by (simp add: create_embeddings_def sample_env_def)
  have cls: "isinstance (raise_exn FileNotFoundError ''The file gone.pdf does not exits.'')
      FileNotFoundError \<or>
    isinstance (raise_exn FileNotFoundError ''The file gone.pdf does not exits.'') ValueError"
    by (simp add: isinstance_def raise_exn_def)
  from no_vector_db_call_on_early_error [OF run cls] run show ?thesis
    by (simp add: isinstance_def raise_exn_def)
qed

section \<open>Properties of the embeddings column\<close>

lemma embeddings_except_shows:
  "embeddings_except e =
     (if isinstance e FileNotFoundError \<or> isinstance e ValueError \<or> isinstance e ConnectionError
      then ([St_error (exn_str e)], None)
      else ([St_error (''An unexpected error occurred: '' @ exn_str e)], None))"
  by (simp add: embeddings_except_def isinstance_Exception)

lemma embeddings_column_caught: "fst (snd (snd (embeddings_column env checked s db))) = None"
  by (simp add: embeddings_column_def embeddings_except_shows
      split: option.splits prod.splits)

text \<open>
  C4. The vector-database step is reached (the path exists, the loader and the splitter
  return something) and \<open>Qdrant.from_documents\<close> raises \<open>e\<close>. Then \<open>create_embeddings\<close>
  raises \<open>ConnectionError\<close> with a text that holds the text of \<open>e\<close>; and the embeddings
  column of the page, run on that path with the manager its settings build, shows that
  text in an error box and ends with no exception.
\<close>

theorem vector_db_failure_reported:
  assumes "os_path_exists env p" and "loader_load env p = Inr docs" and "docs \<noteq> []"
    and "split_documents env 1000 250 docs = Inr splits" and "splits \<noteq> []"
    and "Qdrant_from_documents env splits (embeddings mgr) (qdrant_url mgr) False
           (collection_name mgr) db = (Inl e, db')"
  shows "snd (create_embeddings env mgr p db) =
           (Inl (raise_exn ConnectionError (''Failed to connect to Qdrant: '' @ exn_str e)), db')
         \<and> (temp_pdf_path s = Some p
              \<and> EmbeddingsManager_init env ''BAAI/bge-small-en'' ''cpu''
                   [(''normalize_embeddings'', True)] ''http://localhost:6333'' ''vector_db''
                 = Inr mgr
            \<longrightarrow> embeddings_column env True s db =
                  (s, [St_error (''Failed to connect to Qdrant: '' @ exn_str e)], None, db'))"
  using assms
  by (simp add: create_embeddings_def embeddings_column_def embeddings_try_def
      embeddings_except_def isinstance_def raise_exn_def)

theorem vector_db_failure_reported_witness:
  "EmbeddingsManager_init
       (sample_env True (Inr [sample_doc]) (Inr [sample_doc]) (Inl timeout_error) (Inr ''ok''))
       ''BAAI/bge-small-en'' ''cpu'' [(''normalize_embeddings'', True)]
       ''http://localhost:6333'' ''vector_db'' = Inr sample_manager
   \<and> temp_pdf_path sample_session = Some ''temp.pdf''
   \<and> snd (create_embeddings
       (sample_env True (Inr [sample_doc]) (Inr [sample_doc]) (Inl timeout_error) (Inr ''ok''))
       sample_manager ''temp.pdf'' 0) =
     (Inl \<lparr>exn_class = ConnectionError, exn_str = ''Failed to connect to Qdrant: timed out''\<rparr>,
      1)
   \<and> embeddings_column
       (sample_env True (Inr [sample_doc]) (Inr [sample_doc]) (Inl timeout_error) (Inr ''ok''))
       True sample_session 0 =
     (sample_session, [St_error ''Failed to connect to Qdrant: timed out''], None, 1)"
proof -
  let ?env = "sample_env True (Inr [sample_doc]) (Inr [sample_doc]) (Inl timeout_error) (Inr ''ok'')"
  have init: "EmbeddingsManager_init ?env ''BAAI/bge-small-en'' ''cpu''
       [(''normalize_embeddings'', True)] ''http://localhost:6333'' ''vector_db''
       = Inr sample_manager"
    by (simp add: EmbeddingsManager_init_def sample_env_def sample_manager_def)
  have path: "temp_pdf_path sample_session = Some ''temp.pdf''"
    by (simp add: sample_session_def)
  have q: "Qdrant_from_documents ?env [sample_doc] (embeddings sample_manager)
      (qdrant_url sample_manager) False (collection_name sample_manager) 0
      = (Inl timeout_error, 1)"
    by (simp add: sample_env_def)
  have "os_path_exists ?env ''temp.pdf''" "loader_load ?env ''temp.pdf'' = Inr [sample_doc]"
    "[sample_doc] \<noteq> []" "split_documents ?env 1000 250 [sample_doc] = Inr [sample_doc]"
    by (simp_all add: sample_env_def)
  from vector_db_failure_reported [OF this(1,2,3,4,3) q, of sample_session] init path
  show ?thesis
    by (simp add: timeout_error_def raise_exn_def)
qed

lemma embeddings_column_shows_raised:
  assumes "temp_pdf_path s = Some path"
    and "embeddings_try env path s db = (s1, out, Some x, db1)"
  shows "embeddings_column env True s db =
           (s1,
            out @ [St_error
                     (if isinstance x FileNotFoundError \<or> isinstance x ValueError
                         \<or> isinstance x ConnectionError
                      then exn_str x
                      else ''An unexpected error occurred: '' @ exn_str x)],
            None, db1)"
  using assms by (simp add: embeddings_column_def embeddings_except_shows)

lemma embeddings_column_keeps_shown:
  assumes "temp_pdf_path s = Some path"
    and "embeddings_try env path s db = (s1, out, None, db1)"
  shows "embeddings_column env True s db = (s1, out, None, db1)"
  using assms by (simp add: embeddings_column_def)

lemma embeddings_try_create_raises:
  assumes "EmbeddingsManager_init env ''BAAI/bge-small-en'' ''cpu''
             [(''normalize_embeddings'', True)] ''http://localhost:6333'' ''vector_db''
           = Inr self"
    and "create_embeddings env self p db = (calls, Inl e, db')"
  shows "embeddings_try env p s db = (s, [], Some e, db')"
  using assms by (simp add: embeddings_try_def)

text \<open>
  C5. An exception that leaves \<open>create_embeddings\<close> is one of the three it raises itself
  (\<open>FileNotFoundError\<close> for the missing file, \<open>ValueError\<close> for the empty document,
  \<open>ConnectionError\<close> for the vector database), or one that the loader or the splitter
  raised and that passes through unchanged; and the embeddings column of the page, run on
  that path with the manager its settings build, shows that exception in an error box and
  ends with no exception. The same holds of whatever is raised in the \<open>try\<close> of the
  column: what the \<open>try\<close> had shown stays, an error box follows it, and no exception
  leaves the column. The box holds the text of the exception alone when it is an instance
  of one of the three classes, and the text \<open>An unexpected error occurred: \<close> before it
  for any other.
\<close>

theorem indexing_errors_limited:
  "(create_embeddings env self p db = (calls, Inl e, db') \<longrightarrow>
      (e = raise_exn FileNotFoundError (''The file '' @ p @ '' does not exits.'')
       \<or> e = raise_exn ValueError ''No documents were loaded''
       \<or> e = raise_exn ValueError ''No chunks were created from the documents''
       \<or> (\<exists>e0::exn. e = raise_exn ConnectionError
                          (''Failed to connect to Qdrant: '' @ exn_str e0))
       \<or> loader_load env p = Inl e
       \<or> (\<exists>docs. loader_load env p = Inr docs \<and> split_documents env 1000 250 docs = Inl e))
      \<and> (temp_pdf_path s = Some p
             \<and> EmbeddingsManager_init env ''BAAI/bge-small-en'' ''cpu''
                  [(''normalize_embeddings'', True)] ''http://localhost:6333'' ''vector_db''
                = Inr self
           \<longrightarrow> embeddings_column env True s db =
                 (s,
                  [St_error
                     (if isinstance e FileNotFoundError \<or> isinstance e ValueError
                         \<or> isinstance e ConnectionError
                      then exn_str e
                      else ''An unexpected error occurred: '' @ exn_str e)],
                  None, db')))
   \<and> (temp_pdf_path s = Some path \<and> embeddings_try env path s db = (s1, out, Some x, db1)
        \<longrightarrow> embeddings_column env True s db =
              (s1,
               out @ [St_error
                        (if isinstance x FileNotFoundError \<or> isinstance x ValueError
                            \<or> isinstance x ConnectionError
                         then exn_str x
                         else ''An unexpected error occurred: '' @ exn_str x)],
               None, db1))
   \<and> fst (snd (snd (embeddings_column env checked s db))) = None
   \<and> embeddings_except x =
       (if isinstance x FileNotFoundError \<or> isinstance x ValueError \<or> isinstance x ConnectionError
        then ([St_error (exn_str x)], None)
        else ([St_error (''An unexpected error occurred: '' @ exn_str x)], None))"
proof (intro conjI impI)
  assume "create_embeddings env self p db = (calls, Inl e, db')"
  then show "e = raise_exn FileNotFoundError (''The file '' @ p @ '' does not exits.'')
      \<or> e = raise_exn ValueError ''No documents were loaded''
      \<or> e = raise_exn ValueError ''No chunks were created from the documents''
      \<or> (\<exists>e0::exn. e = raise_exn ConnectionError
                         (''Failed to connect to Qdrant: '' @ exn_str e0))
      \<or> loader_load env p = Inl e
      \<or> (\<exists>docs. loader_load env p = Inr docs \<and> split_documents env 1000 250 docs = Inl e)"
    by (cases rule: create_embeddings_error_cases) blast+
next
  assume run: "create_embeddings env self p db = (calls, Inl e, db')"
    and ui: "temp_pdf_path s = Some p
             \<and> EmbeddingsManager_init env ''BAAI/bge-small-en'' ''cpu''
                  [(''normalize_embeddings'', True)] ''http://localhost:6333'' ''vector_db''
                = Inr self"
  from ui run have "embeddings_try env p s db = (s, [], Some e, db')"
    by (intro embeddings_try_create_raises) simp_all
  with ui have "embeddings_column env True s db =
      (s, [] @ [St_error
                     (if isinstance e FileNotFoundError \<or> isinstance e ValueError
                         \<or> isinstance e ConnectionError
                      then exn_str e
                      else ''An unexpected error occurred: '' @ exn_str e)], None, db')"
    by (intro embeddings_column_shows_raised) simp_all
  then show "embeddings_column env True s db =
      (s, [St_error
                     (if isinstance e FileNotFoundError \<or> isinstance e ValueError
                         \<or> isinstance e ConnectionError
                      then exn_str e
                      else ''An unexpected error occurred: '' @ exn_str e)], None, db')"
    by simp
next
  assume "temp_pdf_path s = Some path \<and> embeddings_try env path s db = (s1, out, Some x, db1)"
  then have "temp_pdf_path s = Some path"
    and "embeddings_try env path s db = (s1, out, Some x, db1)"
    by (rule conjunct1, rule conjunct2)
  then show "embeddings_column env True s db =
              (s1,
               out @ [St_error
                        (if isinstance x FileNotFoundError \<or> isinstance x ValueError
                            \<or> isinstance x ConnectionError
                         then exn_str x
                         else ''An unexpected error occurred: '' @ exn_str x)],
               None, db1)"
    by (rule embeddings_column_shows_raised)
next
  show "fst (snd (snd (embeddings_column env checked s db))) = None"
    by (rule embeddings_column_caught)
next
  show "embeddings_except x =
       (if isinstance x FileNotFoundError \<or> isinstance x ValueError \<or> isinstance x ConnectionError
        then ([St_error (exn_str x)], None)
        else ([St_error (''An unexpected error occurred: '' @ exn_str x)], None))"
    by (rule embeddings_except_shows)
qed

theorem indexing_errors_limited_witness:
  "EmbeddingsManager_init
       (sample_env True (Inl (raise_exn (Subclass ''ImportError'' Exception) ''no pdfminer''))
          (Inr [sample_doc]) (Inr ()) (Inr ''ok''))
       ''BAAI/bge-small-en'' ''cpu'' [(''normalize_embeddings'', True)]
       ''http://localhost:6333'' ''vector_db'' = Inr sample_manager
   \<and> temp_pdf_path sample_session = Some ''temp.pdf''
   \<and> create_embeddings
       (sample_env True (Inl (raise_exn (Subclass ''ImportError'' Exception) ''no pdfminer''))
          (Inr [sample_doc]) (Inr ()) (Inr ''ok''))
       sample_manager ''temp.pdf'' 0 =
     ([PathExists ''temp.pdf'', Load ''temp.pdf''],
      Inl (raise_exn (Subclass ''ImportError'' Exception) ''no pdfminer''), 0)
   \<and> embeddings_try
       (sample_env True (Inl (raise_exn (Subclass ''ImportError'' Exception) ''no pdfminer''))
          (Inr [sample_doc]) (Inr ()) (Inr ''ok''))
       ''temp.pdf'' sample_session 0 =
     (sample_session, [], Some (raise_exn (Subclass ''ImportError'' Exception) ''no pdfminer''), 0)
   \<and> embeddings_column
       (sample_env True (Inl (raise_exn (Subclass ''ImportError'' Exception) ''no pdfminer''))
          (Inr [sample_doc]) (Inr ()) (Inr ''ok''))
       True sample_session 0 =
     (sample_session, [St_error ''An unexpected error occurred: no pdfminer''], None, 0)
   \<and> create_embeddings
       (sample_env False (Inr [sample_doc]) (Inr [sample_doc]) (Inr ()) (Inr ''ok''))
       sample_manager ''temp.pdf'' 0 =
     ([PathExists ''temp.pdf''],
      Inl (raise_exn FileNotFoundError ''The file temp.pdf does not exits.''), 0)
   \<and> embeddings_column
       (sample_env False (Inr [sample_doc]) (Inr [sample_doc]) (Inr ()) (Inr ''ok''))
       True sample_session 0 =
     (sample_session, [St_error ''The file temp.pdf does not exits.''], None, 0)"
proof -
  let ?x = "raise_exn (Subclass ''ImportError'' Exception) ''no pdfminer''"
  let ?env = "sample_env True (Inl ?x) (Inr [sample_doc]) (Inr ()) (Inr ''ok'')"
  let ?env' = "sample_env False (Inr [sample_doc]) (Inr [sample_doc]) (Inr ()) (Inr ''ok'')"
  let ?f = "raise_exn FileNotFoundError ''The file temp.pdf does not exits.''"
  have init: "EmbeddingsManager_init ?env ''BAAI/bge-small-en'' ''cpu''
       [(''normalize_embeddings'', True)] ''http://localhost:6333'' ''vector_db''
       = Inr sample_manager"
    and init': "EmbeddingsManager_init ?env' ''BAAI/bge-small-en'' ''cpu''
       [(''normalize_embeddings'', True)] ''http://localhost:6333'' ''vector_db''
       = Inr sample_manager"
    by (simp_all add: EmbeddingsManager_init_def sample_env_def sample_manager_def)
  have path: "temp_pdf_path sample_session = Some ''temp.pdf''"
    by (simp add: sample_session_def)
  have run: "create_embeddings ?env sample_manager ''temp.pdf'' 0 =
      ([PathExists ''temp.pdf'', Load ''temp.pdf''], Inl ?x, 0)"
    and run': "create_embeddings ?env' sample_manager ''temp.pdf'' 0 =
      ([PathExists ''temp.pdf''], Inl ?f, 0)"
    by (simp_all add: create_embeddings_def sample_env_def raise_exn_def)
  have tr: "embeddings_try ?env ''temp.pdf'' sample_session 0 =
      (sample_session, [], Some ?x, 0)"
    using init run by (simp add: embeddings_try_def)
  from indexing_errors_limited
    [of ?env sample_manager "''temp.pdf''" 0 "[PathExists ''temp.pdf'', Load ''temp.pdf'']"
        ?x 0 sample_session "''temp.pdf''" sample_session "[]" ?x 0 True]
    indexing_errors_limited
    [of ?env' sample_manager "''temp.pdf''" 0 "[PathExists ''temp.pdf'']"
        ?f 0 sample_session "''temp.pdf''" sample_session "[]" ?f 0 True]
    init init' path run run' tr
  show ?thesis
    by (simp add: isinstance_def raise_exn_def)
qed

section \<open>Properties of the chat column\<close>

subsection \<open>The chat input handler\<close>

lemma chat_answer_returns:
  "chat_answer env mgr u =
     Inr (case get_response env mgr u of
            Inr answer \<Rightarrow> answer
          | Inl e \<Rightarrow> emoji_warning @ '' An error occurred while processing your request: ''
                     @ exn_str e)"
  by (simp add: chat_answer_def isinstance_Exception split: sum.splits)

text \<open>
  C1. For a submitted input \<open>u\<close> that is not empty, the handler ends with no exception and
  the transcript is the old one followed by exactly two messages: the user's message with
  content \<open>u\<close>, then the assistant's message, whose content is what \<open>get_response\<close>
  returned for \<open>u\<close> (or the error text when it raised).
\<close>

theorem chat_handler_appends_user_then_assistant:
  assumes "u \<noteq> []" and "chat_input_handler env mgr s (Some u) = (s', out, r)"
  shows "r = None \<and>
         (\<exists>answer.
            messages s' = messages s @ [[(''role'', ''user''), (''content'', u)],
                                        [(''role'', ''assistant''), (''content'', answer)]]
            \<and> (case get_response env mgr u of
                  Inr a \<Rightarrow> answer = a
                | Inl e \<Rightarrow>
                    answer = emoji_warning
                      @ '' An error occurred while processing your request: '' @ exn_str e))"
  using assms
  by (auto simp add: chat_input_handler_def chat_answer_returns append_message_def Let_def
      split: sum.splits)

theorem chat_handler_appends_user_then_assistant_witness:
  "''why'' \<noteq> []
   \<and> chat_input_handler
       (sample_env True (Inr [sample_doc]) (Inr [sample_doc]) (Inr ()) (Inr ''because''))
       ''bot'' sample_session (Some ''why'') =
     (sample_session\<lparr>messages :=
        [[(''role'', ''user''), (''content'', ''hi'')],
         [(''role'', ''assistant''), (''content'', ''hello'')],
         [(''role'', ''user''), (''content'', ''why'')],
         [(''role'', ''assistant''), (''content'', ''because'')]]\<rparr>,
      [Chat_message ''user'' ''why'', Chat_message ''assistant'' ''because''], None)
   \<and> (\<exists>answer.
         [[(''role'', ''user''), (''content'', ''hi'')],
          [(''role'', ''assistant''), (''content'', ''hello'')],
          [(''role'', ''user''), (''content'', ''why'')],
          [(''role'', ''assistant''), (''content'', ''because'')]] =
         messages sample_session @ [[(''role'', ''user''), (''content'', ''why'')],
                                    [(''role'', ''assistant''), (''content'', answer)]])"
proof -
  let ?env = "sample_env True (Inr [sample_doc]) (Inr [sample_doc]) (Inr ()) (Inr ''because'')"
  let ?s' = "sample_session\<lparr>messages :=
        [[(''role'', ''user''), (''content'', ''hi'')],
         [(''role'', ''assistant''), (''content'', ''hello'')],
         [(''role'', ''user''), (''content'', ''why'')],
         [(''role'', ''assistant''), (''content'', ''because'')]]\<rparr>"
  have ne: "''why'' \<noteq> []" by simp
  have run: "chat_input_handler ?env ''bot'' sample_session (Some ''why'') =
      (?s', [Chat_message ''user'' ''why'', Chat_message ''assistant'' ''because''], None)"
    by (simp add: chat_input_handler_def chat_answer_def append_message_def sample_env_def
        sample_session_def)
  from chat_handler_appends_user_then_assistant [OF ne run] run show ?thesis
    by auto
qed

text \<open>
  C9. When \<open>get_response\<close> raises an exception \<open>e\<close> on an input \<open>u\<close> that is not empty,
  the handler still ends with no exception, and it has appended, after the user's message,
  one assistant message whose content is the error text with the text of \<open>e\<close> at its end.
\<close>

theorem chat_handler_answers_on_failure:
  assumes "u \<noteq> []" and "get_response env mgr u = Inl e"
  shows "chat_input_handler env mgr s (Some u) =
           (s\<lparr>messages := messages s @
                 [[(''role'', ''user''), (''content'', u)],
                  [(''role'', ''assistant''),
                   (''content'', emoji_warning
                      @ '' An error occurred while processing your request: '' @ exn_str e)]]\<rparr>,
            [Chat_message ''user'' u,
             Chat_message ''assistant''
               (emoji_warning @ '' An error occurred while processing your request: ''
                @ exn_str e)],
            None)"
  using assms
  by (simp add: chat_input_handler_def chat_answer_returns append_message_def Let_def)

theorem chat_handler_answers_on_failure_witness:
  "''why'' \<noteq> []
   \<and> get_response
       (sample_env True (Inr [sample_doc]) (Inr [sample_doc]) (Inr ()) (Inl timeout_error))
       ''bot'' ''why'' = Inl timeout_error
   \<and> messages (fst (chat_input_handler
       (sample_env True (Inr [sample_doc]) (Inr [sample_doc]) (Inr ()) (Inl timeout_error))
       ''bot'' sample_session (Some ''why''))) =
     [[(''role'', ''user''), (''content'', ''hi'')],
      [(''role'', ''assistant''), (''content'', ''hello'')],
      [(''role'', ''user''), (''content'', ''why'')],
      [(''role'', ''assistant''),
       (''content'', emoji_warning
          @ '' An error occurred while processing your request: timed out'')]]"
  using chat_handler_answers_on_failure
    [of "''why''"
        "sample_env True (Inr [sample_doc]) (Inr [sample_doc]) (Inr ()) (Inl timeout_error)"
        "''bot''" timeout_error sample_session]
  by (simp add: sample_env_def sample_session_def timeout_error_def raise_exn_def)

subsection \<open>The invariant of the transcript\<close>

lemma message_ok_user: "message_ok [(''role'', ''user''), (''content'', c)]"
  by (simp add: message_ok_def)

lemma message_ok_assistant: "message_ok [(''role'', ''assistant''), (''content'', c)]"
  by (simp add: message_ok_def)

lemma transcript_ok_append_message:
  assumes "transcript_ok (messages s)" and "role = ''user'' \<or> role = ''assistant''"
  shows "transcript_ok (messages (append_message s role c))"
  using assms message_ok_user message_ok_assistant
  by (auto simp add: transcript_ok_def append_message_def)

text \<open>The two columns before the chat leave the transcript as it is.\<close>

lemma upload_column_messages: "messages (fst (upload_column env up s)) = messages s"
  by (simp add: upload_column_def Let_def split: option.splits)

lemma embeddings_try_messages: "messages (fst (embeddings_try env path s db)) = messages s"
  by (simp add: embeddings_try_def split: sum.splits prod.splits option.splits)

lemma embeddings_column_messages:
  "messages (fst (embeddings_column env checked s db)) = messages s"
proof (cases "checked \<and> temp_pdf_path s \<noteq> None")
  case False
  then show ?thesis by (auto simp add: embeddings_column_def)
next
  case True
  then obtain path where p: "temp_pdf_path s = Some path" by auto
  obtain s' out r db' where t: "embeddings_try env path s db = (s', out, r, db')"
    by (cases "embeddings_try env path s db")
  from embeddings_try_messages [of env path s db] t have "messages s' = messages s" by simp
  with True p t show ?thesis
    by (simp add: embeddings_column_def split: option.splits prod.splits)
qed

lemma chat_input_handler_ok:
  assumes "transcript_ok (messages s)"
  shows "transcript_ok (messages (fst (chat_input_handler env mgr s inp)))"
proof (cases "inp = None \<or> inp = Some []")
  case True
  with assms show ?thesis by (auto simp add: chat_input_handler_def)
next
  case False
  then obtain u where u: "inp = Some u" "u \<noteq> []" by auto
  have 1: "transcript_ok (messages (append_message s ''user'' u))"
    using assms by (rule transcript_ok_append_message) simp
  have "transcript_ok (messages (append_message (append_message s ''user'' u) ''assistant'' a))"
    for a using 1 by (rule transcript_ok_append_message) simp
  with u show ?thesis
    by (simp add: chat_input_handler_def chat_answer_returns Let_def)
qed

lemma chat_column_ok:
  assumes "transcript_ok (messages s)"
  shows "transcript_ok (messages (fst (chat_column env s inp)))"
proof (cases "chatbot_manager s")
  case None
  with assms show ?thesis by (simp add: chat_column_def)
next
  case (Some mgr)
  obtain shown err where d: "display_messages (messages s) = (shown, err)"
    by (cases "display_messages (messages s)")
  obtain s' out r where h: "chat_input_handler env mgr s inp = (s', out, r)"
    by (cases "chat_input_handler env mgr s inp")
  from chat_input_handler_ok [OF assms, of env mgr inp] h have "transcript_ok (messages s')"
    by simp
  with assms Some d h show ?thesis
    by (cases err) (simp_all add: chat_column_def)
qed

lemma script_run_ok:
  assumes "transcript_ok (messages (init_session_state d))"
  shows "transcript_ok (messages (fst (script_run env inp d db)))"
proof (cases "choice inp")
  case Home
  with assms show ?thesis by (simp add: script_run_def)
next
  case Chatbot
  obtain s1 out1 r1 where c1:
    "upload_column env (uploaded_file inp) (init_session_state d) = (s1, out1, r1)"
    by (cases "upload_column env (uploaded_file inp) (init_session_state d)")
  with assms upload_column_messages [of env "uploaded_file inp" "init_session_state d"]
  have ok1: "transcript_ok (messages s1)" by simp
  obtain s2 out2 r2 db2 where c2:
    "embeddings_column env (create_embeddings_checkbox inp) s1 db = (s2, out2, r2, db2)"
    by (cases "embeddings_column env (create_embeddings_checkbox inp) s1 db")
  with ok1 embeddings_column_messages [of env "create_embeddings_checkbox inp" s1 db]
  have ok2: "transcript_ok (messages s2)" by simp
  obtain s3 out3 r3 where c3: "chat_column env s2 (user_input inp) = (s3, out3, r3)"
    by (cases "chat_column env s2 (user_input inp)")
  from chat_column_ok [OF ok2, of env "user_input inp"] c3
  have ok3: "transcript_ok (messages s3)" by simp
  from Chatbot c1 c2 c3 ok1 ok2 ok3 show ?thesis
    by (cases r1; cases r2) (simp_all add: script_run_def)
qed

lemma init_store: "init_session_state (store s) = s"
  by (simp add: init_session_state_def store_def)

lemma transcript_init: "messages (init_session_state d) = transcript d"
  by (simp add: init_session_state_def transcript_def)

lemma run_scripts_ok:
  "transcript_ok (transcript d) \<Longrightarrow> transcript_ok (transcript (fst (run_scripts rs d db)))"
proof (induction rs arbitrary: d db)
  case Nil
  then show ?case by simp
next
  case (Cons a rs)
  obtain env inp where a: "a = (env, inp)" by (cases a)
  obtain s out r db' where run: "script_run env inp d db = (s, out, r, db')"
    by (cases "script_run env inp d db")
  from Cons.prems have "transcript_ok (messages (fst (script_run env inp d db)))"
    by (intro script_run_ok) (simp add: transcript_init)
  with run have "transcript_ok (transcript (store s))"
    by (simp add: transcript_init [symmetric] init_store)
  then have "transcript_ok (transcript (fst (run_scripts rs (store s) db')))"
    by (rule Cons.IH)
  with a run show ?case by simp
qed

text \<open>On a transcript that satisfies the invariant the loop of lines 148-152 raises nothing.\<close>

lemma display_messages_no_KeyError:
  "transcript_ok ms \<Longrightarrow> snd (display_messages ms) = None"
proof (induction ms)
  case Nil
  then show ?case by simp
next
  case (Cons m ms)
  then have m: "message_ok m" and IH: "snd (display_messages ms) = None"
    by (simp_all add: transcript_ok_def)
  from m obtain r c where rc: "map_of m ''role'' = Some r" "map_of m ''content'' = Some c"
    by (auto simp add: message_ok_def)
  obtain out err where d: "display_messages ms = (out, err)"
    by (cases "display_messages ms")
  with IH have "err = None" by simp
  with rc d show ?case
    by (simp add: getitem_def)
qed

text \<open>
  C7. A session starts with no transcript, which the first run of the script makes the
  empty one. After any number of runs of the script, whatever the widgets held and whatever
  the collaborators did in each, every message of the transcript has the role \<open>user\<close> or
  \<open>assistant\<close> and has a content; and so it is in the next run after each of the two
  operations that write to the transcript, the append of the user's message and the append
  of the assistant's message after it.
\<close>

theorem transcript_roles_invariant:
  "transcript_ok (transcript (empty_session_dict :: 'm session_dict))
   \<and> (let s = init_session_state
                (fst (run_scripts rs (empty_session_dict :: 'm session_dict) db))
      in transcript_ok (messages s)
         \<and> transcript_ok (messages (append_message s ''user'' u))
         \<and> transcript_ok
             (messages (append_message (append_message s ''user'' u) ''assistant'' a)))"
proof -
  let ?s = "init_session_state (fst (run_scripts rs (empty_session_dict :: 'm session_dict) db))"
  have 0: "transcript_ok (transcript (empty_session_dict :: 'm session_dict))"
    by (simp add: transcript_def empty_session_dict_def transcript_ok_def)
  then have "transcript_ok
      (transcript (fst (run_scripts rs (empty_session_dict :: 'm session_dict) db)))"
    by (rule run_scripts_ok)
  then have 1: "transcript_ok (messages ?s)"
    by (simp add: transcript_init)
  then have 2: "transcript_ok (messages (append_message ?s ''user'' u))"
    by (rule transcript_ok_append_message) simp
  then have 3: "transcript_ok
      (messages (append_message (append_message ?s ''user'' u) ''assistant'' a))"
    by (rule transcript_ok_append_message) simp
  from 0 1 2 3 show ?thesis by (simp add: Let_def)
qed

lemma sample_runs_transcript:
  "transcript (fst (run_scripts sample_runs empty_session_dict 0)) =
     [[(''role'', ''user''), (''content'', ''why'')],
      [(''role'', ''assistant''),
       (''content'', emoji_warning
          @ '' An error occurred while processing your request: timed out'')]]"
  by (simp add: sample_runs_def sample_inputs_def sample_env_def script_run_def
      init_session_state_def empty_session_dict_def store_def upload_column_def
      embeddings_column_def embeddings_try_def EmbeddingsManager_init_def
      create_embeddings_def chat_column_def chat_input_handler_def chat_answer_def
      append_message_def isinstance_def timeout_error_def raise_exn_def transcript_def
      Let_def)

theorem transcript_roles_invariant_witness:
  "transcript (fst (run_scripts sample_runs empty_session_dict 0)) =
     [[(''role'', ''user''), (''content'', ''why'')],
      [(''role'', ''assistant''),
       (''content'', emoji_warning
          @ '' An error occurred while processing your request: timed out'')]]
   \<and> transcript_ok
       [[(''role'', ''user''), (''content'', ''why'')],
        [(''role'', ''assistant''),
         (''content'', emoji_warning
            @ '' An error occurred while processing your request: timed out'')]]
   \<and> transcript_ok
       [[(''role'', ''user''), (''content'', ''why'')],
        [(''role'', ''assistant''),
         (''content'', emoji_warning
            @ '' An error occurred while processing your request: timed out'')],
        [(''role'', ''user''), (''content'', ''and then'')]]"
  using transcript_roles_invariant [of sample_runs 0 "''and then''" "''nothing''"]
  by (simp add: sample_runs_transcript transcript_init Let_def append_message_def)

end
